theory Spec2Isabelle
  imports Complex_Main
begin

section \<open>Values of a numeric series\<close>

text \<open>
  The scripts compute on pandas and numpy arrays of IEEE doubles. A value is modelled as a
  finite number, one of the two infinities, or NaN (the missing marker of pandas). Finite
  values are exact reals: rounding, overflow to infinity and the sign of zero are not
  modelled. Division by zero does not raise on these arrays: it yields an infinity, or NaN
  for \<open>0 / 0\<close>.
\<close>

datatype fval = Fin real | PInf | NInf | NaN

fun fdiv :: "fval \<Rightarrow> fval \<Rightarrow> fval" where
  "fdiv NaN y = NaN"
| "fdiv x NaN = NaN"
| "fdiv (Fin a) (Fin b) =
     (if b = 0 then (if a = 0 then NaN else if 0 < a then PInf else NInf) else Fin (a / b))"
| "fdiv (Fin a) PInf = Fin 0"
| "fdiv (Fin a) NInf = Fin 0"
| "fdiv PInf (Fin b) = (if 0 \<le> b then PInf else NInf)"
| "fdiv NInf (Fin b) = (if 0 \<le> b then NInf else PInf)"
| "fdiv PInf PInf = NaN"
| "fdiv PInf NInf = NaN"
| "fdiv NInf PInf = NaN"
| "fdiv NInf NInf = NaN"

fun fmul :: "fval \<Rightarrow> fval \<Rightarrow> fval" where
  "fmul NaN y = NaN"
| "fmul x NaN = NaN"
| "fmul (Fin a) (Fin b) = Fin (a * b)"
| "fmul (Fin a) PInf = (if a = 0 then NaN else if 0 < a then PInf else NInf)"
| "fmul (Fin a) NInf = (if a = 0 then NaN else if 0 < a then NInf else PInf)"
| "fmul PInf (Fin b) = (if b = 0 then NaN else if 0 < b then PInf else NInf)"
| "fmul NInf (Fin b) = (if b = 0 then NaN else if 0 < b then NInf else PInf)"
| "fmul PInf PInf = PInf"
| "fmul PInf NInf = NInf"
| "fmul NInf PInf = NInf"
| "fmul NInf NInf = PInf"

fun fadd :: "fval \<Rightarrow> fval \<Rightarrow> fval" where
  "fadd NaN y = NaN"
| "fadd x NaN = NaN"
| "fadd (Fin a) (Fin b) = Fin (a + b)"
| "fadd (Fin a) PInf = PInf"
| "fadd (Fin a) NInf = NInf"
| "fadd PInf (Fin b) = PInf"
| "fadd NInf (Fin b) = NInf"
| "fadd PInf PInf = PInf"
| "fadd PInf NInf = NaN"
| "fadd NInf PInf = NaN"
| "fadd NInf NInf = NInf"

text \<open>Comparisons: every comparison with NaN is false.\<close>

fun flt :: "fval \<Rightarrow> fval \<Rightarrow> bool" where
  "flt NaN y = False"
| "flt x NaN = False"
| "flt (Fin a) (Fin b) = (a < b)"
| "flt (Fin a) PInf = True"
| "flt (Fin a) NInf = False"
| "flt PInf y = False"
| "flt NInf (Fin b) = True"
| "flt NInf PInf = True"
| "flt NInf NInf = False"

definition fgt :: "fval \<Rightarrow> fval \<Rightarrow> bool" where
  "fgt x y = flt y x"

definition fle :: "fval \<Rightarrow> fval \<Rightarrow> bool" where
  "fle x y = (x \<noteq> NaN \<and> y \<noteq> NaN \<and> \<not> flt y x)"

definition feq :: "fval \<Rightarrow> fval \<Rightarrow> bool" where
  "feq x y = (x \<noteq> NaN \<and> x = y)"

section \<open>Series, date ranges and resampling\<close>

text \<open>
  A series is the list of its (timestamp, value) rows in index order. A timestamp is the
  number of nanoseconds since the epoch, UTC, as pandas stores it. The index of a series is
  taken to be free of duplicates.
\<close>

type_synonym series = "(int \<times> fval) list"

definition minute :: int where "minute = 60000000000"
definition hour :: int where "hour = 3600000000000"
definition day :: int where "day = 86400000000000"

text \<open>\<open>pd.date_range(start, end, freq)\<close>: start, start + freq, ... up to end inclusive.\<close>

definition date_range :: "int \<Rightarrow> int \<Rightarrow> int \<Rightarrow> int list" where
  "date_range start end freq =
     (if end < start then []
      else map (\<lambda>i. start + int i * freq) [0 ..< Suc (nat ((end - start) div freq))])"

text \<open>
  The mean of pandas skips missing values; a group with no value left has mean NaN.
\<close>

definition fsum :: "fval list \<Rightarrow> fval" where
  "fsum vs = foldl fadd (Fin 0) vs"

definition mean_skipna :: "fval list \<Rightarrow> fval" where
  "mean_skipna vs =
     (let ws = filter (\<lambda>v. v \<noteq> NaN) vs
      in if ws = [] then NaN else fdiv (fsum ws) (Fin (real (length ws))))"

text \<open>
  \<open>s.resample(w, label="left").mean()\<close> for a fixed bin width \<open>w\<close>: the bins are the
  intervals \<open>[origin + k * w, origin + (k + 1) * w)\<close>, where the origin is midnight of the
  day of the earliest timestamp; there is one output row for every bin from the one of the
  earliest timestamp to the one of the latest, empty bins included, labelled with the left
  edge of the bin.
\<close>

definition bin_rows :: "int \<Rightarrow> int \<Rightarrow> int \<Rightarrow> series \<Rightarrow> fval list" where
  "bin_rows origin w k xs = map snd (filter (\<lambda>r. (fst r - origin) div w = k) xs)"

definition resample_origin :: "series \<Rightarrow> int" where
  "resample_origin xs = (Min (set (map fst xs)) div day) * day"

definition resample_mean :: "int \<Rightarrow> series \<Rightarrow> series" where
  "resample_mean w xs =
     (if xs = [] then []
      else let origin = resample_origin xs;
               lo = (Min (set (map fst xs)) - origin) div w;
               hi = (Max (set (map fst xs)) - origin) div w
           in map (\<lambda>k. (origin + k * w, mean_skipna (bin_rows origin w k xs))) [lo..hi])"

text \<open>
  Arithmetic on two series aligns them on their index: where the two indexes are equal the
  result keeps it, otherwise the result has the sorted union of the two; a timestamp absent
  from either operand gives NaN.
\<close>

definition series_index :: "series \<Rightarrow> series \<Rightarrow> int list" where
  "series_index a b =
     (if map fst a = map fst b then map fst a else sort (remdups (map fst a @ map fst b)))"

definition series_div :: "series \<Rightarrow> series \<Rightarrow> series" where
  "series_div a b =
     map (\<lambda>t. (t, case (map_of a t, map_of b t) of
                    (Some x, Some y) \<Rightarrow> fdiv x y
                  | _ \<Rightarrow> NaN))
         (series_index a b)"

section \<open>Calculate\_KT.py\<close>

text \<open>
  The solar position and the extraterrestrial radiation come from pvlib; they are
  parameters of the model: \<open>zen t\<close> is the apparent zenith angle in degrees and \<open>etr t\<close> the
  extraterrestrial radiation at timestamp \<open>t\<close>, both finite numbers.
\<close>

definition radians :: "real \<Rightarrow> real" where
  "radians d = d * pi / 180"

text \<open>\<open>etr_hor = np.cos(np.radians(zen)) * etr; etr_hor[etr_hor < 0] = 0\<close>\<close>

definition etr_hor :: "(int \<Rightarrow> real) \<Rightarrow> (int \<Rightarrow> real) \<Rightarrow> int list \<Rightarrow> (int \<times> real) list" where
  "etr_hor etr zen ts =
     map (\<lambda>t. (t, let x = cos (radians (zen t)) * etr t in if x < 0 then 0 else x)) ts"

definition to_series :: "(int \<times> real) list \<Rightarrow> series" where
  "to_series xs = map (\<lambda>(t, x). (t, Fin x)) xs"

text \<open>\<open>kt[kt > 1.3] = np.nan\<close>\<close>

definition ceiling_filter :: "fval \<Rightarrow> fval" where
  "ceiling_filter v = (if fgt v (Fin 1.3) then NaN else v)"

definition etr_h_hor :: "(int \<Rightarrow> real) \<Rightarrow> (int \<Rightarrow> real) \<Rightarrow> int \<Rightarrow> int \<Rightarrow> series" where
  "etr_h_hor etr zen start end =
     resample_mean hour (to_series (etr_hor etr zen (date_range start end minute)))"

definition scale_global_h :: "series \<Rightarrow> series" where
  "scale_global_h global_h = map (\<lambda>(t, v). (t, fmul v (Fin 1000))) global_h"

text \<open>
  The body of \<open>main\<close> up to the filtered \<open>kt\<close>; \<open>global_h\<close> is the column read from the
  CSV file. The script fixes \<open>start\<close> and \<open>end\<close> to 2014-01-01 and 2014-12-31.
\<close>

definition KT_main :: "(int \<Rightarrow> real) \<Rightarrow> (int \<Rightarrow> real) \<Rightarrow> int \<Rightarrow> int \<Rightarrow> series \<Rightarrow> series" where
  "KT_main etr zen start end global_h =
     map (\<lambda>(t, v). (t, ceiling_filter v))
         (series_div (scale_global_h global_h) (etr_h_hor etr zen start end))"

section \<open>POA\_analysis.py\<close>

text \<open>
  A Python exception is modelled by its class. A ValueError carries the condition that its
  message reports; the wording of the messages is not modelled.
\<close>

datatype reason = Negative_num | Too_few_samples | Unsorted_x | Below_range | Above_range

datatype error = IndexError | ValueError reason

text \<open>
  The columns of the solar position frame of pvlib that the script reads; \<open>sp t\<close>, the
  solar position at timestamp \<open>t\<close>, is a parameter of the model, as the extraterrestrial
  radiation \<open>etr t\<close> is.
\<close>

record solpos =
  apparent_zenith :: real
  zenith :: real
  azimuth :: real

record eai_row =
  eai :: real
  eai_global :: real

record irr_row =
  ghi :: fval
  dhi :: fval

text \<open>
  \<open>left.merge(right, left_index=True, right_index=True)\<close>: the inner join on the index,
  in the order of the left frame.
\<close>

definition merge_inner :: "(int \<times> 'a) list \<Rightarrow> (int \<times> 'b) list \<Rightarrow> (int \<times> 'a \<times> 'b) list" where
  "merge_inner l r =
     concat (map (\<lambda>(t, a). case map_of r t of None \<Rightarrow> [] | Some b \<Rightarrow> [(t, (a, b))]) l)"

text \<open>
  \<open>simulate_eai\<close> returns the frame of \<open>eai\<close> and \<open>eai_global\<close> and the solar positions,
  both indexed by the timestamps of the date range.
\<close>

definition simulate_eai ::
  "(int \<Rightarrow> real) \<Rightarrow> (int \<Rightarrow> solpos) \<Rightarrow> int \<Rightarrow> int \<Rightarrow> int
     \<Rightarrow> (int \<times> eai_row) list \<times> (int \<times> solpos) list" where
  "simulate_eai etr sp start end freq =
     (let ts = date_range start end freq;
          solpos = map (\<lambda>t. (t, sp t)) ts;
          eai_global = map (\<lambda>t. (t, etr t)) ts;
          eai = map (\<lambda>(t, g). (t, let x = g * cos (radians (apparent_zenith (sp t)))
                                    in if x < 0 then 0 else x)) eai_global
      in (map (\<lambda>(t, e, g). (t, \<lparr>eai = e, eai_global = g\<rparr>)) (merge_inner eai eai_global),
          solpos))"

text \<open>
  The merged frame \<open>irr_\<close> of \<open>main\<close>; \<open>irr\<close> is the frame loaded from the CSV file.
  \<open>irr.index[0]\<close> raises on an empty frame.
\<close>

definition POA_irr ::
  "(int \<Rightarrow> real) \<Rightarrow> (int \<Rightarrow> solpos) \<Rightarrow> (int \<times> irr_row) list
     \<Rightarrow> error + (int \<times> (irr_row \<times> solpos) \<times> eai_row) list" where
  "POA_irr etr sp irr =
     (if irr = [] then Inl IndexError
      else let start = fst (hd irr);
               end = fst (last irr);
               (eai, solpos) = simulate_eai etr sp start end minute
           in Inr (merge_inner (merge_inner irr solpos) eai))"

text \<open>
  \<open>kt = irr_["ghi"] / irr_["eai"]; kt[kt == np.inf] = np.nan; kt[irr_["eai"] < 10] = np.nan\<close>,
  row by row: the two columns belong to the same frame.
\<close>

definition POA_kt_value :: "fval \<Rightarrow> fval \<Rightarrow> fval" where
  "POA_kt_value g e =
     (let kt = fdiv g e;
          kt = (if feq kt PInf then NaN else kt);
          kt = (if flt e (Fin 10) then NaN else kt)
      in kt)"

definition POA_kt :: "(int \<times> (irr_row \<times> solpos) \<times> eai_row) list \<Rightarrow> series" where
  "POA_kt rows = map (\<lambda>(t, (i, s), e). (t, POA_kt_value (ghi i) (Fin (eai e)))) rows"

definition POA_main_kt ::
  "(int \<Rightarrow> real) \<Rightarrow> (int \<Rightarrow> solpos) \<Rightarrow> (int \<times> irr_row) list \<Rightarrow> error + series" where
  "POA_main_kt etr sp irr =
     (case POA_irr etr sp irr of Inl e \<Rightarrow> Inl e | Inr rows \<Rightarrow> Inr (POA_kt rows))"

text \<open>\<open>kt_d = kt.resample("d", label="left").mean()\<close>\<close>

definition POA_main_kt_d ::
  "(int \<Rightarrow> real) \<Rightarrow> (int \<Rightarrow> solpos) \<Rightarrow> (int \<times> irr_row) list \<Rightarrow> error + series" where
  "POA_main_kt_d etr sp irr =
     (case POA_main_kt etr sp irr of Inl e \<Rightarrow> Inl e | Inr kt \<Rightarrow> Inr (resample_mean day kt))"

section \<open>Spectral interpolation\<close>

text \<open>
  \<open>np.linspace(start, stop, num)\<close>, end point included: a negative \<open>num\<close> raises
  ValueError; otherwise the points are \<open>i * step + start\<close> with
  \<open>step = (stop - start) / (num - 1)\<close>, and the last of more than one point is set to
  \<open>stop\<close>.
\<close>

definition linspace :: "real \<Rightarrow> real \<Rightarrow> int \<Rightarrow> error + real list" where
  "linspace start stop num =
     (if num < 0 then Inl (ValueError Negative_num)
      else let dv = num - 1;
               delta = stop - start;
               y = map (\<lambda>i. (if 0 < dv then real i * (delta / real_of_int dv)
                              else real i * delta) + start) [0 ..< nat num]
           in Inr (if 1 < num then y[length y - 1 := stop] else y))"

text \<open>
  \<open>interp1d(x, y, kind='cubic')\<close> of scipy, with its defaults: the samples are sorted by
  \<open>x\<close>; fewer than four samples, or two samples with the same \<open>x\<close>, raise ValueError,
  each with a message of its own. The fitted interpolant is called with the default
  \<open>bounds_error\<close>: a point below the first or above the last sample raises ValueError,
  with a message that says which, and nothing is extrapolated. The cubic
  spline itself is a parameter of the model: \<open>spline pts x\<close> is the value at \<open>x\<close> of the
  spline fitted to the sorted samples \<open>pts\<close>.
\<close>

definition interp1d_cubic :: "(real \<times> real) list \<Rightarrow> error + (real \<times> real) list" where
  "interp1d_cubic samples =
     (let pts = sort_key fst samples
      in if length pts < 4 then Inl (ValueError Too_few_samples)
         else if \<not> sorted_wrt (<) (map fst pts) then Inl (ValueError Unsorted_x)
         else Inr pts)"

definition interp_call ::
  "((real \<times> real) list \<Rightarrow> real \<Rightarrow> real) \<Rightarrow> (real \<times> real) list \<Rightarrow> real list
     \<Rightarrow> error + real list" where
  "interp_call spline pts x_new =
     (if list_ex (\<lambda>x. x < fst (hd pts)) x_new then Inl (ValueError Below_range)
      else if list_ex (\<lambda>x. fst (last pts) < x) x_new then Inl (ValueError Above_range)
      else Inr (map (spline pts) x_new))"

text \<open>
  \<open>interpolate_wl_spectrum\<close>: \<open>input_spectrum\<close> is the two-column frame as a list of
  (wavelength, power) rows; the result is the frame of the rows \<open>(int_x, int_y)\<close>.
\<close>

definition interpolate_wl_spectrum ::
  "((real \<times> real) list \<Rightarrow> real \<Rightarrow> real) \<Rightarrow> int \<Rightarrow> int \<Rightarrow> int \<Rightarrow> (real \<times> real) list
     \<Rightarrow> error + (real \<times> real) list" where
  "interpolate_wl_spectrum spline start_wl end_wl step_wl input_spectrum =
     (case linspace (real_of_int start_wl) (real_of_int end_wl) (end_wl - start_wl + 1) of
        Inl e \<Rightarrow> Inl e
      | Inr int_x \<Rightarrow>
          (case interp1d_cubic input_spectrum of
             Inl e \<Rightarrow> Inl e
           | Inr f \<Rightarrow>
               (case interp_call spline f int_x of
                  Inl e \<Rightarrow> Inl e
                | Inr int_y \<Rightarrow> Inr (zip int_x int_y))))"

section \<open>Notions used to state the properties of resampling\<close>

text \<open>The finite values of a list of values, in order: what a mean over them adds up.\<close>

fun fin_vals :: "fval list \<Rightarrow> real list" where
  "fin_vals [] = []"
| "fin_vals (Fin r # vs) = r # fin_vals vs"
| "fin_vals (v # vs) = fin_vals vs"

text \<open>The values of the rows whose timestamp lies in the interval from \<open>T\<close> to \<open>T + w\<close>, \<open>T + w\<close> excluded.\<close>

definition rows_between :: "int \<Rightarrow> int \<Rightarrow> series \<Rightarrow> fval list" where
  "rows_between T w xs = map snd (filter (\<lambda>r. T \<le> fst r \<and> fst r < T + w) xs)"

text \<open>
  The arithmetic mean of the values of a list that are not missing, in the arithmetic of
  doubles with exact finite values: an infinity among the values makes the sum, and the
  mean, that infinity, both infinities make it NaN, and the mean of no value is NaN.
\<close>

definition arithmetic_mean :: "fval list \<Rightarrow> fval" where
  "arithmetic_mean vs =
     (if PInf \<in> set vs \<and> NInf \<in> set vs then NaN
      else if PInf \<in> set vs then PInf
      else if NInf \<in> set vs then NInf
      else if fin_vals vs = [] then NaN
      else Fin (sum_list (fin_vals vs) / real (length (fin_vals vs))))"

text \<open>
  What the aggregation of a series \<open>fine\<close> to bins of width \<open>w\<close> has to produce, in the
  words of the specification: the rows of \<open>out\<close> are labelled with the left edges of
  consecutive bins of width \<open>w\<close>, whole multiples of \<open>w\<close>, from the bin of the earliest
  fine-grained row to the bin of the latest one; the value of a row labelled \<open>T\<close> is the
  arithmetic mean of the fine-grained values with timestamps from \<open>T\<close> to \<open>T + w\<close>,
  \<open>T + w\<close> excluded; and every fine-grained row falls into the bin of some row of \<open>out\<close>.
\<close>

definition mean_aggregate :: "int \<Rightarrow> series \<Rightarrow> series \<Rightarrow> bool" where
  "mean_aggregate w fine out =
     ((fine = [] \<longrightarrow> out = []) \<and>
      (fine \<noteq> [] \<longrightarrow>
         out \<noteq> [] \<and>
         (\<exists>r \<in> set fine. fst (hd out) \<le> fst r \<and> fst r < fst (hd out) + w) \<and>
         (\<exists>r \<in> set fine. fst (last out) \<le> fst r \<and> fst r < fst (last out) + w)) \<and>
      (\<forall>i. Suc i < length out \<longrightarrow> fst (out ! Suc i) = fst (out ! i) + w) \<and>
      (\<forall>(T, v) \<in> set out. T mod w = 0 \<and> v = arithmetic_mean (rows_between T w fine)) \<and>
      (\<forall>r \<in> set fine. \<exists>(T, v) \<in> set out. T \<le> fst r \<and> fst r < T + w))"



section \<open>Auxiliary facts\<close>

lemma map_of_graph: "t \<in> set ts \<Longrightarrow> map_of (map (\<lambda>t. (t, f t)) ts) t = Some (f t)"
  by (simp add: map_of_map_restrict)

lemma merge_inner_same_index:
  "merge_inner (map (\<lambda>t. (t, f t)) ts) (map (\<lambda>t. (t, g t)) ts) = map (\<lambda>t. (t, (f t, g t))) ts"
proof -
  have "set us \<subseteq> set ts \<Longrightarrow>
        merge_inner (map (\<lambda>t. (t, f t)) us) (map (\<lambda>t. (t, g t)) ts) =
        map (\<lambda>t. (t, (f t, g t))) us" for us
    by (induction us) (simp_all add: merge_inner_def map_of_graph)
  then show ?thesis by simp
qed

lemma simulate_eai_frame:
  "fst (simulate_eai etr sp start end freq) =
     map (\<lambda>t. (t, \<lparr>eai = (let x = etr t * cos (radians (apparent_zenith (sp t)))
                           in if x < 0 then 0 else x),
                   eai_global = etr t\<rparr>))
         (date_range start end freq)"
  by (simp add: simulate_eai_def Let_def comp_def merge_inner_same_index)

lemma simulate_eai_solpos:
  "snd (simulate_eai etr sp start end freq) = map (\<lambda>t. (t, sp t)) (date_range start end freq)"
  by (simp add: simulate_eai_def Let_def)

lemma set_series_index: "set (series_index a b) = fst ` set a \<union> fst ` set b"
proof (cases "map fst a = map fst b")
  case True
  then have "fst ` set a = fst ` set b" by (metis set_map)
  with True show ?thesis by (simp add: series_index_def)
next
  case False
  then show ?thesis by (simp add: series_index_def)
qed

lemma map_of_series_div:
  "map_of (series_div a b) t =
     (if t \<in> fst ` set a \<union> fst ` set b
      then Some (case (map_of a t, map_of b t) of (Some x, Some y) \<Rightarrow> fdiv x y | _ \<Rightarrow> NaN)
      else None)"
  unfolding series_div_def map_of_map_restrict set_series_index
  by (simp add: restrict_map_def)

lemma map_of_KT_main:
  "map_of (KT_main etr zen start end g) t =
     map_option ceiling_filter
       (map_of (series_div (scale_global_h g) (etr_h_hor etr zen start end)) t)"
  by (simp add: KT_main_def map_of_map)

lemma ceiling_filter_cases: "ceiling_filter v = NaN \<or> fle (ceiling_filter v) (Fin 1.3)"
  by (cases v) (auto simp: ceiling_filter_def fgt_def fle_def)

lemma cos_two_thirds_pi: "cos (2 * pi / 3) = - (1 / 2)"
proof -
  have "2 * pi / 3 = pi - pi / 3" by simp
  then show ?thesis by (simp only: cos_pi_minus cos_60)
qed

lemma cos_radians_120: "cos (radians 120) = - (1 / 2)"
  by (simp add: radians_def cos_two_thirds_pi)

lemma date_range_single: "date_range s s f = [s]"
  by (simp add: date_range_def)

lemma cos_radians_60: "cos (radians 60) = 1 / 2"
  by (simp add: radians_def cos_60)

lemma date_range_two: "date_range 0 minute minute = [0, minute]"
  by (simp add: date_range_def minute_def)

text \<open>One minute of night (zenith 120 degrees): the hourly reference is zero.\<close>

lemma night_reference: "etr_h_hor (\<lambda>_. 1361) (\<lambda>_. 120) 0 0 = [(0, Fin 0)]"
  by (simp add: etr_h_hor_def date_range_single etr_hor_def to_series_def cos_radians_120
      resample_mean_def resample_origin_def upto.simps bin_rows_def mean_skipna_def fsum_def)

section \<open>Horizontal projection of the extraterrestrial radiation\<close>

text \<open>
  Claim C2. Every timestamp has one projected value, in the order of the timestamps: the
  extraterrestrial radiation times the cosine of the apparent zenith angle, the angle in
  degrees being converted to radians (times \<open>pi / 180\<close>) before the cosine is taken, and
  a negative product replaced by exactly zero, so that no projected value is negative.
  This holds for \<open>etr_hor\<close> of Calculate\_KT.py on any list of timestamps, and for the frame
  of \<open>simulate_eai\<close> in POA\_analysis.py on the timestamps of its date range, whose
  column \<open>eai_global\<close> keeps the unprojected radiation.
\<close>

theorem horizontal_projection:
  "etr_hor etr zen ts = map (\<lambda>t. (t, max 0 (cos (zen t * pi / 180) * etr t))) ts \<and>
   map fst (etr_hor etr zen ts) = ts \<and>
   (\<forall>(t, x) \<in> set (etr_hor etr zen ts).
      x = max 0 (cos (zen t * pi / 180) * etr t) \<and> 0 \<le> x \<and>
      (cos (zen t * pi / 180) * etr t < 0 \<longrightarrow> x = 0)) \<and>
   fst (simulate_eai etr sp start end freq) =
     map (\<lambda>t. (t, \<lparr>eai = max 0 (etr t * cos (apparent_zenith (sp t) * pi / 180)),
                   eai_global = etr t\<rparr>))
         (date_range start end freq) \<and>
   map fst (fst (simulate_eai etr sp start end freq)) = date_range start end freq \<and>
   (\<forall>(t, r) \<in> set (fst (simulate_eai etr sp start end freq)).
      eai_global r = etr t \<and>
      eai r = max 0 (etr t * cos (apparent_zenith (sp t) * pi / 180)) \<and> 0 \<le> eai r \<and>
      (etr t * cos (apparent_zenith (sp t) * pi / 180) < 0 \<longrightarrow> eai r = 0))"
proof (intro conjI)
  show "etr_hor etr zen ts = map (\<lambda>t. (t, max 0 (cos (zen t * pi / 180) * etr t))) ts"
    by (simp add: etr_hor_def radians_def Let_def max_def)
  show "map fst (etr_hor etr zen ts) = ts"
    by (simp add: etr_hor_def comp_def)
  show "\<forall>(t, x) \<in> set (etr_hor etr zen ts).
      x = max 0 (cos (zen t * pi / 180) * etr t) \<and> 0 \<le> x \<and>
      (cos (zen t * pi / 180) * etr t < 0 \<longrightarrow> x = 0)"
    by (auto simp: etr_hor_def radians_def Let_def)
  show "fst (simulate_eai etr sp start end freq) =
     map (\<lambda>t. (t, \<lparr>eai = max 0 (etr t * cos (apparent_zenith (sp t) * pi / 180)),
                   eai_global = etr t\<rparr>))
         (date_range start end freq)"
    unfolding simulate_eai_frame by (simp add: radians_def Let_def max_def)
  show "map fst (fst (simulate_eai etr sp start end freq)) = date_range start end freq"
    unfolding simulate_eai_frame by (simp add: comp_def)
  show "\<forall>(t, r) \<in> set (fst (simulate_eai etr sp start end freq)).
      eai_global r = etr t \<and>
      eai r = max 0 (etr t * cos (apparent_zenith (sp t) * pi / 180)) \<and> 0 \<le> eai r \<and>
      (etr t * cos (apparent_zenith (sp t) * pi / 180) < 0 \<longrightarrow> eai r = 0)"
    unfolding simulate_eai_frame by (auto simp: radians_def Let_def)
qed

theorem horizontal_projection_witness:
  "etr_hor (\<lambda>_. 1361) (\<lambda>t. if t = 0 then 120 else 60) [0, minute] =
     [(0, 0), (minute, 1361 / 2)] \<and>
   cos (120 * pi / 180) * 1361 < (0::real) \<and>
   fst (simulate_eai (\<lambda>_. 1361)
          (\<lambda>t. \<lparr>apparent_zenith = (if t = 0 then 120 else 60), zenith = 0, azimuth = 0\<rparr>)
          0 minute minute) =
     [(0, \<lparr>eai = 0, eai_global = 1361\<rparr>), (minute, \<lparr>eai = 1361 / 2, eai_global = 1361\<rparr>)]"
proof -
  have m: "minute \<noteq> 0" by (simp add: minute_def)
  have c60: "cos (pi / 3) = 1 / 2" by (rule cos_60)
  show ?thesis
    using horizontal_projection [of "\<lambda>_. 1361" "\<lambda>t. if t = 0 then 120 else 60" "[0, minute]"
      "\<lambda>t. \<lparr>apparent_zenith = (if t = 0 then 120 else 60), zenith = 0, azimuth = 0\<rparr>"
      0 minute minute]
    by (simp add: cos_two_thirds_pi c60 date_range_two m)
qed

section \<open>The plausibility ceiling of the KT script\<close>

text \<open>
  Claim C3. The filter \<open>kt[kt > 1.3] = nan\<close> replaces every ratio strictly above 1.3 by
  the missing marker, never by the ceiling, and leaves every ratio at or below 1.3 as it
  is: 1.5 becomes missing and 0.8 stays 0.8. Positive infinity is above the ceiling and
  becomes missing; negative infinity and NaN are left as they are. The filtered series of
  \<open>main\<close> is the unfiltered quotient with this filter applied to every value.
\<close>

theorem plausibility_ceiling:
  "(1.3 < r \<longrightarrow> ceiling_filter (Fin r) = NaN) \<and>
   (r \<le> 1.3 \<longrightarrow> ceiling_filter (Fin r) = Fin r) \<and>
   ceiling_filter PInf = NaN \<and> ceiling_filter NInf = NInf \<and> ceiling_filter NaN = NaN \<and>
   ceiling_filter (Fin 1.5) = NaN \<and> ceiling_filter (Fin 0.8) = Fin 0.8 \<and>
   map fst (KT_main etr zen start end g) =
     map fst (series_div (scale_global_h g) (etr_h_hor etr zen start end)) \<and>
   map snd (KT_main etr zen start end g) =
     map ceiling_filter
       (map snd (series_div (scale_global_h g) (etr_h_hor etr zen start end)))"
  by (auto simp: ceiling_filter_def fgt_def KT_main_def)

theorem plausibility_ceiling_witness:
  "(1.3::real) < 3 / 2 \<and> ceiling_filter (Fin (3 / 2)) = NaN \<and>
   (4 / 5 :: real) \<le> 1.3 \<and> ceiling_filter (Fin (4 / 5)) = Fin (4 / 5)"
  using plausibility_ceiling [of "3 / 2"] plausibility_ceiling [of "4 / 5"]
  by simp

section \<open>No value above the ceiling survives in the KT script\<close>

text \<open>
  Claim C10. After the filtering step of the KT script every value of the clearness-index
  series is NaN or at most 1.3. In particular, where a positive measurement meets an
  hourly reference of zero, the quotient is positive infinity and the filter replaces it
  by NaN.
\<close>

theorem KT_bounded:
  "(\<forall>(t, v) \<in> set (KT_main etr zen start end g). v = NaN \<or> fle v (Fin 1.3)) \<and>
   (\<forall>t m. map_of (scale_global_h g) t = Some (Fin m) \<and> 0 < m \<and>
          map_of (etr_h_hor etr zen start end) t = Some (Fin 0)
      \<longrightarrow> map_of (KT_main etr zen start end g) t = Some NaN)"
proof (intro conjI allI impI)
  show "\<forall>(t, v) \<in> set (KT_main etr zen start end g). v = NaN \<or> fle v (Fin 1.3)"
    using ceiling_filter_cases by (auto simp: KT_main_def)
next
  fix t m
  assume h: "map_of (scale_global_h g) t = Some (Fin m) \<and> 0 < m \<and>
          map_of (etr_h_hor etr zen start end) t = Some (Fin 0)"
  then have "t \<in> fst ` set (scale_global_h g)"
    by (metis map_of_eq_None_iff option.distinct(1))
  with h show "map_of (KT_main etr zen start end g) t = Some NaN"
    by (simp add: map_of_KT_main map_of_series_div ceiling_filter_def fgt_def)
qed

theorem KT_bounded_witness:
  "map_of (scale_global_h [(0, Fin (1 / 10))]) 0 = Some (Fin 100) \<and> (0::real) < 100 \<and>
   map_of (etr_h_hor (\<lambda>_. 1361) (\<lambda>_. 120) 0 0) 0 = Some (Fin 0) \<and>
   map_of (KT_main (\<lambda>_. 1361) (\<lambda>_. 120) 0 0 [(0, Fin (1 / 10))]) 0 = Some NaN \<and>
   (0, NaN) \<in> set (KT_main (\<lambda>_. 1361) (\<lambda>_. 120) 0 0 [(0, Fin (1 / 10))])"
  using KT_bounded [of "\<lambda>_. 1361" "\<lambda>_. 120" 0 0 "[(0, Fin (1 / 10))]"]
  by (simp add: night_reference scale_global_h_def KT_main_def series_div_def
      series_index_def ceiling_filter_def fgt_def)

section \<open>The unused step parameter of the spectral interpolation\<close>

text \<open>
  Claim C9. \<open>interpolate_wl_spectrum\<close> never reads \<open>step_wl\<close>: two calls that agree on
  \<open>start_wl\<close>, \<open>end_wl\<close> and \<open>input_spectrum\<close> give the same result, a frame or an error,
  whatever the two steps are.
\<close>

theorem step_wl_ignored:
  "interpolate_wl_spectrum spline start_wl end_wl step1 input_spectrum =
   interpolate_wl_spectrum spline start_wl end_wl step2 input_spectrum"
  by (simp add: interpolate_wl_spectrum_def)

section \<open>Auxiliary facts on the spectral interpolation\<close>

lemma unit_grid:
  "map (\<lambda>i. real i + real_of_int s) [0 ..< nat (e - s + 1)] = map real_of_int [s..e]"
proof (rule nth_equalityI)
  show "length (map (\<lambda>i. real i + real_of_int s) [0 ..< nat (e - s + 1)]) =
        length (map real_of_int [s..e])"
    by simp
next
  fix i
  assume "i < length (map (\<lambda>i. real i + real_of_int s) [0 ..< nat (e - s + 1)])"
  then have i: "i < nat (e - s + 1)" by simp
  then have "s + int i \<le> e" by linarith
  then have "[s..e] ! i = s + int i" by (rule nth_upto)
  with i show "map (\<lambda>i. real i + real_of_int s) [0 ..< nat (e - s + 1)] ! i =
        map real_of_int [s..e] ! i"
    by simp
qed

lemma linspace_unit:
  assumes "s \<le> e"
  shows "linspace (real_of_int s) (real_of_int e) (e - s + 1) = Inr (map real_of_int [s..e])"
proof (cases "s = e")
  case True
  then show ?thesis by (simp add: linspace_def)
next
  case False
  with assms have lt: "s < e" by simp
  let ?n = "nat (e - s + 1)"
  let ?y = "map (\<lambda>i. real i + real_of_int s) [0 ..< ?n]"
  have step: "(real_of_int e - real_of_int s) / real_of_int (e - s) = 1"
    using lt by simp
  have y: "?y = map real_of_int [s..e]" by (rule unit_grid)
  have "length [s..e] - 1 < length [s..e]" using lt by simp
  moreover have "s + int (length [s..e] - 1) \<le> e" using lt by simp
  then have "[s..e] ! (length [s..e] - 1) = s + int (length [s..e] - 1)" by (rule nth_upto)
  then have "[s..e] ! (length [s..e] - 1) = e" using lt by simp
  ultimately have "(map real_of_int [s..e]) [length [s..e] - 1 := real_of_int e] = map real_of_int [s..e]"
    by (metis list_update_id map_update)
  with lt step y show ?thesis
    by (simp add: linspace_def Let_def)
qed

lemma few_samples:
  "length inp < 4 \<Longrightarrow> interp1d_cubic inp = Inl (ValueError Too_few_samples)"
  by (simp add: interp1d_cubic_def)

lemma sorted_samples:
  "sorted_wrt (<) (map fst inp) \<Longrightarrow> 4 \<le> length inp \<Longrightarrow> interp1d_cubic inp = Inr inp"
  using strict_sorted_imp_sorted [of "map fst inp"]
  by (simp add: interp1d_cubic_def sort_key_id_if_sorted)

lemma interp_call_inside:
  assumes "fst (hd pts) \<le> real_of_int s" "real_of_int e \<le> fst (last pts)"
  shows "interp_call spline pts (map real_of_int [s..e]) =
         Inr (map (spline pts) (map real_of_int [s..e]))"
proof -
  have "\<not> list_ex (\<lambda>x. x < fst (hd pts)) (map real_of_int [s..e])"
    using assms(1) by (auto simp: list_ex_iff)
  moreover have "\<not> list_ex (\<lambda>x. fst (last pts) < x) (map real_of_int [s..e])"
    using assms(2) by (auto simp: list_ex_iff)
  ultimately show ?thesis by (simp add: interp_call_def)
qed

lemma interp_call_outside:
  assumes "s \<le> e" "real_of_int s < fst (hd pts) \<or> fst (last pts) < real_of_int e"
  shows "interp_call spline pts (map real_of_int [s..e]) =
         Inl (ValueError (if real_of_int s < fst (hd pts) then Below_range else Above_range))"
proof (cases "real_of_int s < fst (hd pts)")
  case True
  have "s \<in> set [s..e]" using assms(1) by simp
  with True have "list_ex (\<lambda>x. x < fst (hd pts)) (map real_of_int [s..e])"
    unfolding list_ex_iff by (metis image_eqI set_map)
  with True show ?thesis by (simp add: interp_call_def)
next
  case False
  then have "\<not> list_ex (\<lambda>x. x < fst (hd pts)) (map real_of_int [s..e])"
    by (auto simp: list_ex_iff)
  moreover have "e \<in> set [s..e]" using assms(1) by simp
  with False assms(2) have "list_ex (\<lambda>x. fst (last pts) < x) (map real_of_int [s..e])"
    unfolding list_ex_iff by (metis image_eqI set_map)
  ultimately show ?thesis using False by (simp add: interp_call_def)
qed

lemma upto_first_last:
  assumes "s \<le> e"
  shows "hd [s..e] = s" "last [s..e] = e" "[s..e] \<noteq> []"
proof -
  show ne: "[s..e] \<noteq> []" using assms by simp
  show "hd [s..e] = s" using assms by (simp add: upto.simps)
  have "s + int (length [s..e] - 1) \<le> e" using assms by simp
  then have "[s..e] ! (length [s..e] - 1) = s + int (length [s..e] - 1)" by (rule nth_upto)
  then show "last [s..e] = e" using assms ne by (simp add: last_conv_nth)
qed

lemma zip_graph: "zip (map f xs) (map (g \<circ> f) xs) = map (\<lambda>x. (f x, g (f x))) xs"
  by (induction xs) simp_all

lemma few_samples_fail:
  "length inp < 4 \<Longrightarrow>
   interpolate_wl_spectrum spline s e step inp =
     Inl (ValueError (if e - s + 1 < 0 then Negative_num else Too_few_samples))"
  by (simp add: interpolate_wl_spectrum_def few_samples linspace_def Let_def)

lemma request_outside_domain:
  assumes "sorted_wrt (<) (map fst inp)" and "s \<le> e"
    and "real_of_int s < fst (hd inp) \<or> fst (last inp) < real_of_int e"
  shows "interpolate_wl_spectrum spline s e step inp =
         Inl (ValueError (if length inp < 4 then Too_few_samples
                          else if real_of_int s < fst (hd inp) then Below_range
                          else Above_range))"
proof (cases "4 \<le> length inp")
  case True
  with assms(1) have "interp1d_cubic inp = Inr inp" by (rule sorted_samples)
  then show ?thesis using True
    by (simp add: interpolate_wl_spectrum_def linspace_unit [OF assms(2)]
        interp_call_outside [OF assms(2,3)])
next
  case False
  then show ?thesis using assms(2) by (simp add: few_samples_fail)
qed

lemma request_inside_domain:
  assumes "sorted_wrt (<) (map fst inp)" and "4 \<le> length inp"
    and "fst (hd inp) \<le> real_of_int s" and "real_of_int e \<le> fst (last inp)" and "s \<le> e"
  shows "interpolate_wl_spectrum spline s e step inp =
         Inr (map (\<lambda>x. (real_of_int x, spline inp (real_of_int x))) [s..e])"
proof -
  have "interp1d_cubic inp = Inr inp" using assms(1,2) by (rule sorted_samples)
  then show ?thesis
    by (simp add: interpolate_wl_spectrum_def linspace_unit [OF assms(5)]
        interp_call_inside [OF assms(3,4)] zip_graph)
qed

section \<open>The grid of the spectral interpolation\<close>

text \<open>
  Claim C4, as stated: every curve with strictly increasing wavelengths that covers the
  requested range is resampled to \<open>end - start + 1\<close> points. It fails for a curve of two
  points (300 and 2000) that covers the range 300 to 2000: the cubic fit needs four
  samples, and the call raises ValueError.
\<close>

theorem two_point_curve_counterexample:
  "sorted_wrt (<) (map fst [(300, 1), (2000, 2) :: real \<times> real]) \<and>
   fst (hd [(300, 1), (2000, 2) :: real \<times> real]) \<le> real_of_int 300 \<and>
   real_of_int 2000 \<le> fst (last [(300, 1), (2000, 2) :: real \<times> real]) \<and>
   interpolate_wl_spectrum (\<lambda>_ _. 0) 300 2000 1700 [(300, 1), (2000, 2)] =
     Inl (ValueError Too_few_samples) \<and>
   \<not> (\<exists>rows. interpolate_wl_spectrum (\<lambda>_ _. 0) 300 2000 1700 [(300, 1), (2000, 2)] = Inr rows \<and>
          length rows = 1701)"
  by (simp add: few_samples_fail)

text \<open>
  Claim C4, amended: for a curve of at least four samples with strictly increasing
  wavelengths that covers the range from \<open>start\<close> to \<open>end\<close>, \<open>start\<close> at most \<open>end\<close>, the
  call returns a frame of exactly \<open>end - start + 1\<close> rows; the wavelengths are
  \<open>start, start + 1, ..., end\<close>, one unit apart, the first \<open>start\<close> and the last \<open>end\<close>, and
  the powers are the values of the fitted spline there. For 300 and 2000 these are 1701
  rows.
\<close>

theorem unit_grid_points:
  assumes "sorted_wrt (<) (map fst inp)" and "4 \<le> length inp"
    and "fst (hd inp) \<le> real_of_int s" and "real_of_int e \<le> fst (last inp)" and "s \<le> e"
  shows "\<exists>rows. interpolate_wl_spectrum spline s e step inp = Inr rows \<and>
           length rows = nat (e - s + 1) \<and>
           map fst rows = map real_of_int [s..e] \<and>
           map snd rows = map (\<lambda>x. spline inp (real_of_int x)) [s..e] \<and>
           fst (hd rows) = real_of_int s \<and> fst (last rows) = real_of_int e \<and>
           (\<forall>i. Suc i < length rows \<longrightarrow> fst (rows ! Suc i) = fst (rows ! i) + 1)"
proof -
  let ?rows = "map (\<lambda>x. (real_of_int x, spline inp (real_of_int x))) [s..e]"
  have f: "interp1d_cubic inp = Inr inp" using assms(1,2) by (rule sorted_samples)
  have r: "interpolate_wl_spectrum spline s e step inp = Inr ?rows"
    by (simp add: interpolate_wl_spectrum_def linspace_unit [OF assms(5)] f
        interp_call_inside [OF assms(3,4)] zip_graph)
  have ne: "[s..e] \<noteq> []" using assms(5) by simp
  have "fst (hd ?rows) = real_of_int s"
    using upto_first_last [OF assms(5)] by (simp add: hd_map)
  moreover have "fst (last ?rows) = real_of_int e"
    using upto_first_last [OF assms(5)] by (simp add: last_map)
  moreover have "fst (?rows ! Suc i) = fst (?rows ! i) + 1" if "Suc i < length ?rows" for i
  proof -
    from that have "s + int (Suc i) \<le> e" "s + int i \<le> e" by simp_all
    then have "[s..e] ! Suc i = s + int (Suc i)" "[s..e] ! i = s + int i"
      by (simp_all only: nth_upto)
    with that show ?thesis by simp
  qed
  moreover have "length ?rows = nat (e - s + 1)" by simp
  moreover have "map fst ?rows = map real_of_int [s..e]" by (simp add: comp_def)
  moreover have "map snd ?rows = map (\<lambda>x. spline inp (real_of_int x)) [s..e]"
    by (simp add: comp_def)
  ultimately show ?thesis using r by blast
qed

theorem unit_grid_points_witness:
  "sorted_wrt (<) (map fst [(300, 1), (1000, 2), (1500, 3), (2000, 4) :: real \<times> real]) \<and>
   4 \<le> length [(300, 1), (1000, 2), (1500, 3), (2000, 4) :: real \<times> real] \<and>
   (\<exists>rows. interpolate_wl_spectrum (\<lambda>_ _. 0) 300 2000 1700
              [(300, 1), (1000, 2), (1500, 3), (2000, 4)] = Inr rows \<and>
           length rows = 1701 \<and> fst (hd rows) = 300 \<and> fst (last rows) = 2000)"
proof -
  let ?inp = "[(300, 1), (1000, 2), (1500, 3), (2000, 4) :: real \<times> real]"
  have h1: "sorted_wrt (<) (map fst ?inp)" by simp
  have h2: "4 \<le> length ?inp" by simp
  have h3: "fst (hd ?inp) \<le> real_of_int 300" by simp
  have h4: "real_of_int 2000 \<le> fst (last ?inp)" by simp
  have h5: "(300 :: int) \<le> 2000" by simp
  from unit_grid_points [OF h1 h2 h3 h4 h5, of "\<lambda>_ _. 0" 1700]
  obtain rows where r: "interpolate_wl_spectrum (\<lambda>_ _. 0) 300 2000 1700 ?inp = Inr rows"
    and "length rows = nat (2000 - 300 + 1)"
    and "fst (hd rows) = real_of_int 300" and "fst (last rows) = real_of_int 2000"
    by blast
  then have "length rows = 1701 \<and> fst (hd rows) = 300 \<and> fst (last rows) = 2000" by simp
  with r h1 h2 show ?thesis by blast
qed

section \<open>A request outside the domain of the curve\<close>

text \<open>
  Claim C5, as stated: a request that extends outside the wavelengths of the curve is not
  checked and yields indeterminate values instead of an error. It fails for the request
  299 to 303 on a curve over 300 to 303: the call returns no frame.
\<close>

theorem extrapolation_counterexample:
  "sorted_wrt (<) (map fst [(300, 1), (301, 2), (302, 3), (303, 4) :: real \<times> real]) \<and>
   real_of_int 299 < fst (hd [(300, 1), (301, 2), (302, 3), (303, 4) :: real \<times> real]) \<and>
   \<not> (\<exists>rows. interpolate_wl_spectrum (\<lambda>_ _. 0) 299 303 4
        [(300, 1), (301, 2), (302, 3), (303, 4)] = Inr rows)"
  using request_outside_domain [of "[(300, 1), (301, 2), (302, 3), (303, 4)]" 299 303 "\<lambda>_ _. 0" 4]
  by simp

text \<open>
  Claim C5, amended: \<open>interpolate_wl_spectrum\<close> has no check of its own, but the
  interpolant is called with the default bounds check of scipy: for a curve with strictly
  increasing wavelengths and a non-empty request that starts below the first wavelength
  or ends above the last one, the call raises ValueError and returns no frame; nothing is
  extrapolated. On a curve of at least four samples the error is the one of the bounds
  check, below the range if the request starts below it and above the range otherwise.
\<close>

theorem out_of_domain_fails:
  assumes "sorted_wrt (<) (map fst inp)" and "s \<le> e"
    and "real_of_int s < fst (hd inp) \<or> fst (last inp) < real_of_int e"
  shows "(\<exists>r. interpolate_wl_spectrum spline s e step inp = Inl (ValueError r)) \<and>
         (\<forall>rows. interpolate_wl_spectrum spline s e step inp \<noteq> Inr rows) \<and>
         (4 \<le> length inp \<longrightarrow>
            interpolate_wl_spectrum spline s e step inp =
              Inl (ValueError (if real_of_int s < fst (hd inp) then Below_range
                               else Above_range)))"
  using request_outside_domain [OF assms, of spline step] by simp

theorem out_of_domain_fails_witness:
  "sorted_wrt (<) (map fst [(300, 1), (301, 2), (302, 3), (303, 4) :: real \<times> real]) \<and>
   (299 :: int) \<le> 303 \<and>
   real_of_int 299 < fst (hd [(300, 1), (301, 2), (302, 3), (303, 4) :: real \<times> real]) \<and>
   4 \<le> length [(300, 1), (301, 2), (302, 3), (303, 4) :: real \<times> real] \<and>
   interpolate_wl_spectrum (\<lambda>_ _. 0) 299 303 4 [(300, 1), (301, 2), (302, 3), (303, 4)] =
     Inl (ValueError Below_range)"
  using out_of_domain_fails [of "[(300, 1), (301, 2), (302, 3), (303, 4)]" 299 303 "\<lambda>_ _. 0" 4]
  by simp

section \<open>Fewer than four samples\<close>

text \<open>
  Claim C6, as stated: with fewer than four samples the sample count is not validated, and
  the condition is not reported distinctly from an interpolation-domain failure. It fails:
  on three samples the call raises the ValueError of the sample count, although the
  request lies inside the curve and the same request on four samples returns a frame; and
  a request outside the domain of a curve raises the ValueError of the bounds check, which
  reports another condition.
\<close>

theorem sample_count_counterexample:
  "interpolate_wl_spectrum (\<lambda>_ _. 0) 300 302 2 [(300, 1), (301, 2), (302, 3)] =
     Inl (ValueError Too_few_samples) \<and>
   (\<exists>rows. interpolate_wl_spectrum (\<lambda>_ _. 0) 300 302 2
              [(300, 1), (301, 2), (302, 3), (303, 4)] = Inr rows) \<and>
   interpolate_wl_spectrum (\<lambda>_ _. 0) 299 303 2 [(300, 1), (301, 2), (302, 3), (303, 4)] =
     Inl (ValueError Below_range) \<and>
   interpolate_wl_spectrum (\<lambda>_ _. 0) 300 302 2 [(300, 1), (301, 2), (302, 3)] \<noteq>
   interpolate_wl_spectrum (\<lambda>_ _. 0) 299 303 2 [(300, 1), (301, 2), (302, 3), (303, 4)]"
proof -
  let ?four = "[(300, 1), (301, 2), (302, 3), (303, 4) :: real \<times> real]"
  have a: "interpolate_wl_spectrum (\<lambda>_ _. 0) 300 302 2 [(300, 1), (301, 2), (302, 3)] =
     Inl (ValueError Too_few_samples)"
    by (simp add: few_samples_fail)
  have b: "\<exists>rows. interpolate_wl_spectrum (\<lambda>_ _. 0) 300 302 2 ?four = Inr rows"
    using request_inside_domain [of ?four 300 302 "\<lambda>_ _. 0" 2] by simp
  have c: "interpolate_wl_spectrum (\<lambda>_ _. 0) 299 303 2 ?four = Inl (ValueError Below_range)"
    using request_outside_domain [of ?four 299 303 "\<lambda>_ _. 0" 2] by simp
  from a b c show ?thesis by simp
qed

text \<open>
  Claim C6, amended: when fewer than four samples are supplied, \<open>interpolate_wl_spectrum\<close>
  makes no check of its own, but the constructor of the cubic interpolant that it calls
  validates the sample count and raises ValueError, whatever the requested range is
  (a request of a negative number of points fails before, in \<open>linspace\<close>). A request
  outside the domain of a curve of four or more samples raises ValueError too: the two
  conditions share the class of the exception and are told apart by its message only.
\<close>

theorem few_samples_rejected:
  assumes "length inp < 4"
  shows "interp1d_cubic inp = Inl (ValueError Too_few_samples) \<and>
         interpolate_wl_spectrum spline s e step inp =
           Inl (ValueError (if e - s + 1 < 0 then Negative_num else Too_few_samples)) \<and>
         (\<forall>inp' s' e'. sorted_wrt (<) (map fst inp') \<and> 4 \<le> length inp' \<and> s' \<le> e' \<and>
              (real_of_int s' < fst (hd inp') \<or> fst (last inp') < real_of_int e')
            \<longrightarrow> (\<exists>r. interpolate_wl_spectrum spline s' e' step inp' = Inl (ValueError r) \<and>
                     r \<noteq> Too_few_samples \<and>
                     (s \<le> e + 1 \<longrightarrow> interpolate_wl_spectrum spline s' e' step inp' \<noteq>
                        interpolate_wl_spectrum spline s e step inp)))"
proof (intro conjI allI impI)
  show "interp1d_cubic inp = Inl (ValueError Too_few_samples)"
    using assms by (rule few_samples)
  show f: "interpolate_wl_spectrum spline s e step inp =
           Inl (ValueError (if e - s + 1 < 0 then Negative_num else Too_few_samples))"
    using assms by (rule few_samples_fail)
  fix inp' :: "(real \<times> real) list" and s' e' :: int
  assume h: "sorted_wrt (<) (map fst inp') \<and> 4 \<le> length inp' \<and> s' \<le> e' \<and>
              (real_of_int s' < fst (hd inp') \<or> fst (last inp') < real_of_int e')"
  then have "interpolate_wl_spectrum spline s' e' step inp' =
     Inl (ValueError (if real_of_int s' < fst (hd inp') then Below_range else Above_range))"
    using request_outside_domain [of inp' s' e' spline step] by simp
  with f show "\<exists>r. interpolate_wl_spectrum spline s' e' step inp' = Inl (ValueError r) \<and>
                     r \<noteq> Too_few_samples \<and>
                     (s \<le> e + 1 \<longrightarrow> interpolate_wl_spectrum spline s' e' step inp' \<noteq>
                        interpolate_wl_spectrum spline s e step inp)"
    by auto
qed

theorem few_samples_rejected_witness:
  "length [(300, 1), (301, 2), (302, 3) :: real \<times> real] < 4 \<and>
   interpolate_wl_spectrum (\<lambda>_ _. 0) 300 302 2 [(300, 1), (301, 2), (302, 3)] =
     Inl (ValueError Too_few_samples) \<and>
   sorted_wrt (<) (map fst [(300, 1), (301, 2), (302, 3), (303, 4) :: real \<times> real]) \<and>
   4 \<le> length [(300, 1), (301, 2), (302, 3), (303, 4) :: real \<times> real] \<and>
   (299 :: int) \<le> 303 \<and> (300 :: int) \<le> 302 + 1 \<and>
   real_of_int 299 < fst (hd [(300, 1), (301, 2), (302, 3), (303, 4) :: real \<times> real]) \<and>
   interpolate_wl_spectrum (\<lambda>_ _. 0) 299 303 2 [(300, 1), (301, 2), (302, 3), (303, 4)] \<noteq>
   interpolate_wl_spectrum (\<lambda>_ _. 0) 300 302 2 [(300, 1), (301, 2), (302, 3)]"
proof -
  let ?four = "[(300, 1), (301, 2), (302, 3), (303, 4) :: real \<times> real]"
  have l: "length [(300, 1), (301, 2), (302, 3) :: real \<times> real] < 4" by simp
  note T = few_samples_rejected [OF l, of "\<lambda>_ _. 0" 300 302 2]
  from T have 1: "interpolate_wl_spectrum (\<lambda>_ _. 0) 300 302 2 [(300, 1), (301, 2), (302, 3)] =
     Inl (ValueError Too_few_samples)"
    by simp
  have h: "sorted_wrt (<) (map fst ?four) \<and> 4 \<le> length ?four \<and> (299 :: int) \<le> 303 \<and>
       (real_of_int 299 < fst (hd ?four) \<or> fst (last ?four) < real_of_int 303)"
    by simp
  from T have "\<forall>inp' s' e'. sorted_wrt (<) (map fst inp') \<and> 4 \<le> length inp' \<and> s' \<le> e' \<and>
              (real_of_int s' < fst (hd inp') \<or> fst (last inp') < real_of_int e')
            \<longrightarrow> (\<exists>r. interpolate_wl_spectrum (\<lambda>_ _. 0) s' e' 2 inp' = Inl (ValueError r) \<and>
                     r \<noteq> Too_few_samples \<and>
                     (300 \<le> 302 + (1 :: int) \<longrightarrow> interpolate_wl_spectrum (\<lambda>_ _. 0) s' e' 2 inp' \<noteq>
                        interpolate_wl_spectrum (\<lambda>_ _. 0) 300 302 2 [(300, 1), (301, 2), (302, 3)]))"
    by (elim conjE)
  from this [rule_format, OF h]
  have 2: "interpolate_wl_spectrum (\<lambda>_ _. 0) 299 303 2 ?four \<noteq>
     interpolate_wl_spectrum (\<lambda>_ _. 0) 300 302 2 [(300, 1), (301, 2), (302, 3)]"
    by auto
  from l 1 2 show ?thesis by simp
qed

section \<open>Missing clearness index at a low reference\<close>

lemma merge_inner_rows:
  "(t, a, b) \<in> set (merge_inner l r) \<Longrightarrow> (t, a) \<in> set l \<and> map_of r t = Some b"
  by (auto simp: merge_inner_def split: option.splits)

lemma POA_irr_rows:
  assumes "POA_irr etr sp irr = Inr rows" and "(t, (i, s), e) \<in> set rows"
  shows "(t, i) \<in> set irr \<and> s = sp t \<and>
         e = \<lparr>eai = max 0 (etr t * cos (apparent_zenith (sp t) * pi / 180)), eai_global = etr t\<rparr>"
proof -
  let ?ts = "date_range (fst (hd irr)) (fst (last irr)) minute"
  let ?sim = "simulate_eai etr sp (fst (hd irr)) (fst (last irr)) minute"
  from assms(1) have rows: "rows = merge_inner (merge_inner irr (snd ?sim)) (fst ?sim)"
    by (auto simp: POA_irr_def Let_def split: if_splits prod.splits)
  from assms(2) rows have 1: "(t, (i, s)) \<in> set (merge_inner irr (snd ?sim))"
    and 2: "map_of (fst ?sim) t = Some e"
    using merge_inner_rows by fastforce+
  from 1 have 3: "(t, i) \<in> set irr" and 4: "map_of (snd ?sim) t = Some s"
    using merge_inner_rows by fastforce+
  from 4 have "s = sp t"
    by (auto simp: simulate_eai_solpos map_of_map_restrict restrict_map_def split: if_splits)
  moreover from 2 have "e = \<lparr>eai = max 0 (etr t * cos (apparent_zenith (sp t) * pi / 180)), eai_global = etr t\<rparr>"
    by (auto simp: simulate_eai_frame map_of_map_restrict restrict_map_def radians_def Let_def max_def split: if_splits)
  ultimately show ?thesis using 3 by simp
qed

lemma merge_inner_complete:
  "(t, a) \<in> set l \<Longrightarrow> map_of r t = Some b \<Longrightarrow> (t, a, b) \<in> set (merge_inner l r)"
  by (force simp: merge_inner_def)

lemma POA_irr_complete:
  assumes "irr \<noteq> []"
  shows "\<exists>rows. POA_irr etr sp irr = Inr rows \<and>
         (\<forall>(t, i) \<in> set irr.
             t \<in> set (date_range (fst (hd irr)) (fst (last irr)) minute) \<longrightarrow>
             (\<exists>e. (t, (i, sp t), e) \<in> set rows))"
proof -
  let ?ts = "date_range (fst (hd irr)) (fst (last irr)) minute"
  let ?sim = "simulate_eai etr sp (fst (hd irr)) (fst (last irr)) minute"
  let ?rows = "merge_inner (merge_inner irr (snd ?sim)) (fst ?sim)"
  have rows: "POA_irr etr sp irr = Inr ?rows"
    using assms by (simp add: POA_irr_def Let_def split: prod.splits)
  have "\<exists>e. (t, (i, sp t), e) \<in> set ?rows"
    if ti: "(t, i) \<in> set irr" and tt: "t \<in> set ?ts" for t i
  proof -
    have "map_of (snd ?sim) t = Some (sp t)"
      using tt by (simp add: simulate_eai_solpos map_of_graph)
    with ti have 1: "(t, i, sp t) \<in> set (merge_inner irr (snd ?sim))"
      by (rule merge_inner_complete)
    have "\<exists>e. map_of (fst ?sim) t = Some e"
      using tt by (simp add: simulate_eai_frame map_of_graph)
    then obtain e where "map_of (fst ?sim) t = Some e" ..
    with 1 have "(t, (i, sp t), e) \<in> set ?rows" by (rule merge_inner_complete)
    then show ?thesis ..
  qed
  with rows show ?thesis by blast
qed

lemma POA_kt_value_floor: "x < 10 \<Longrightarrow> POA_kt_value g (Fin x) = NaN"
  by (simp add: POA_kt_value_def)

lemma POA_kt_value_ratio:
  "10 \<le> x \<Longrightarrow> POA_kt_value g (Fin x) = (if g = PInf then NaN else fdiv g (Fin x))"
  by (cases g) (auto simp: POA_kt_value_def feq_def)

lemma KT_zero_reference:
  assumes "map_of (scale_global_h g) t = Some m"
    and "map_of (etr_h_hor etr zen start end) t = Some (Fin 0)"
    and "m = NaN \<or> fle (Fin 0) m"
  shows "map_of (KT_main etr zen start end g) t = Some NaN"
proof -
  from assms(1) have "t \<in> fst ` set (scale_global_h g)"
    by (metis map_of_eq_None_iff option.distinct(1))
  moreover from assms(3) have "ceiling_filter (fdiv m (Fin 0)) = NaN"
    by (cases m) (auto simp: fle_def ceiling_filter_def fgt_def)
  ultimately show ?thesis using assms(1,2)
    by (simp add: map_of_KT_main map_of_series_div)
qed

lemma POA_two_rows:
  "POA_irr (\<lambda>_. 1361)
     (\<lambda>t. \<lparr>apparent_zenith = (if t = 0 then 120 else 60), zenith = 0, azimuth = 0\<rparr>)
     [(0, \<lparr>ghi = Fin 5, dhi = Fin 1\<rparr>), (minute, \<lparr>ghi = Fin 300, dhi = Fin 100\<rparr>)] =
   Inr [(0, (\<lparr>ghi = Fin 5, dhi = Fin 1\<rparr>,
             \<lparr>apparent_zenith = 120, zenith = 0, azimuth = 0\<rparr>),
            \<lparr>eai = 0, eai_global = 1361\<rparr>),
        (minute, (\<lparr>ghi = Fin 300, dhi = Fin 100\<rparr>,
             \<lparr>apparent_zenith = 60, zenith = 0, azimuth = 0\<rparr>),
            \<lparr>eai = 1361 / 2, eai_global = 1361\<rparr>)]"
proof -
  have m: "minute \<noteq> 0" by (simp add: minute_def)
  show ?thesis
    by (simp add: POA_irr_def date_range_two simulate_eai_def merge_inner_def
        cos_radians_120 cos_radians_60 m)
qed

lemma cos_near_horizon: "cos (radians (897 / 10)) = sin (pi / 600)"
proof -
  have e: "radians (897 / 10) = pi / 2 - pi / 600" by (simp add: radians_def)
  have "cos (pi / 2 - pi / 600) = sin (pi / 600)"
    by (simp only: cos_diff cos_pi_half sin_pi_half mult_zero_left mult_1 add_0)
  then show ?thesis by (simp only: e)
qed

lemma sin_near_horizon: "0 < sin (pi / 600)" "1361 * sin (pi / 600) < 10"
proof -
  show "0 < sin (pi / 600)" by (rule sin_gt_zero) (use pi_gt_zero in simp_all)
  have "sin (pi / 600) \<le> pi / 600" by (rule sin_x_le_x) simp
  moreover have "pi / 600 < 4 / 600" using pi_less_4 by simp
  ultimately show "1361 * sin (pi / 600) < 10" by simp
qed

lemma dawn_reference:
  "etr_h_hor (\<lambda>_. 1361) (\<lambda>_. 897 / 10) 0 0 = [(0, Fin (1361 * sin (pi / 600)))]"
  using sin_near_horizon(1)
  by (simp add: etr_h_hor_def date_range_single etr_hor_def to_series_def cos_near_horizon
      resample_mean_def resample_origin_def upto.simps bin_rows_def mean_skipna_def fsum_def
      not_less mult_nonneg_nonneg less_imp_le)

text \<open>
  Claim C1, as stated: in the clearness-index derivation the ratio is missing wherever the
  reference is zero or below the floor of 10 W/m2. It fails in Calculate\_KT.py,
  which has no floor and no test for infinity. At night (zenith 120 degrees) the hourly
  reference is zero, and a measurement of -0.001 kW/m2 gives negative infinity, which
  the ceiling filter keeps. With the sun at a zenith of 89.7 degrees the reference lies
  strictly between 0 and 10 W/m2, and a measurement of zero gives the ratio 0, a
  number.
\<close>

theorem floor_counterexample:
  "map_of (etr_h_hor (\<lambda>_. 1361) (\<lambda>_. 120) 0 0) 0 = Some (Fin 0) \<and>
   map_of (KT_main (\<lambda>_. 1361) (\<lambda>_. 120) 0 0 [(0, Fin (- (1 / 1000)))]) 0 = Some NInf \<and>
   map_of (etr_h_hor (\<lambda>_. 1361) (\<lambda>_. 897 / 10) 0 0) 0 = Some (Fin (1361 * sin (pi / 600))) \<and>
   0 < 1361 * sin (pi / 600) \<and> 1361 * sin (pi / 600) < 10 \<and>
   map_of (KT_main (\<lambda>_. 1361) (\<lambda>_. 897 / 10) 0 0 [(0, Fin 0)]) 0 = Some (Fin 0)"
  using sin_near_horizon
  by (simp add: night_reference dawn_reference KT_main_def scale_global_h_def series_div_def
      series_index_def ceiling_filter_def fgt_def)

text \<open>
  Claim C1, amended. In POA\_analysis.py, at every row of the merged frame the reference
  \<open>eai\<close> is the clamped projection; where it is below 10 W/m2, zero included, \<open>kt\<close>
  is missing, and elsewhere \<open>kt\<close> is the ratio \<open>ghi / eai\<close>, except that a ratio of
  positive infinity is replaced by missing; a ratio of negative infinity is kept, as the
  script tests for \<open>np.inf\<close> only. The merged frame holds every row of the loaded
  frame whose timestamp is one of the simulated minutes. In Calculate\_KT.py, at every timestamp present in both series the
  output is the ratio of the scaled measurement to the hourly reference, passed through
  the ceiling filter; there is no floor, and where the reference is zero the output is
  missing when the measurement is missing or not negative.
\<close>

theorem clearness_index_missing:
  "(irr \<noteq> [] \<longrightarrow>
      (\<exists>rows. POA_irr etr sp irr = Inr rows \<and>
         (\<forall>(t, i) \<in> set irr.
             t \<in> set (date_range (fst (hd irr)) (fst (last irr)) minute) \<longrightarrow>
             (\<exists>e. (t, (i, sp t), e) \<in> set rows)))) \<and>
   (\<forall>rows. POA_irr etr sp irr = Inr rows \<longrightarrow>
      POA_main_kt etr sp irr = Inr (POA_kt rows) \<and>
      length (POA_kt rows) = length rows \<and>
      (\<forall>k < length rows.
         (case rows ! k of (t, (i, s), e) \<Rightarrow>
            eai e = max 0 (etr t * cos (apparent_zenith (sp t) * pi / 180)) \<and>
            fst (POA_kt rows ! k) = t \<and>
            (eai e < 10 \<longrightarrow> snd (POA_kt rows ! k) = NaN) \<and>
            (10 \<le> eai e \<longrightarrow> snd (POA_kt rows ! k) =
               (if ghi i = PInf then NaN else fdiv (ghi i) (Fin (eai e)))) \<and>
            (10 \<le> eai e \<and> ghi i = NInf \<longrightarrow> snd (POA_kt rows ! k) = NInf)))) \<and>
   (\<forall>t m r. map_of (scale_global_h g) t = Some m \<and>
            map_of (etr_h_hor etr zen start end) t = Some r \<longrightarrow>
       map_of (KT_main etr zen start end g) t = Some (ceiling_filter (fdiv m r)) \<and>
       (r = Fin 0 \<and> (m = NaN \<or> fle (Fin 0) m) \<longrightarrow>
          map_of (KT_main etr zen start end g) t = Some NaN))"
proof (intro conjI allI impI)
  assume "irr \<noteq> []"
  then show "\<exists>rows. POA_irr etr sp irr = Inr rows \<and>
         (\<forall>(t, i) \<in> set irr.
             t \<in> set (date_range (fst (hd irr)) (fst (last irr)) minute) \<longrightarrow>
             (\<exists>e. (t, (i, sp t), e) \<in> set rows))"
    by (rule POA_irr_complete)
next
  fix rows
  assume r: "POA_irr etr sp irr = Inr rows"
  then show "POA_main_kt etr sp irr = Inr (POA_kt rows)" by (simp add: POA_main_kt_def)
  show "length (POA_kt rows) = length rows" by (simp add: POA_kt_def)
  fix k
  assume k: "k < length rows"
  obtain t i s e where row: "rows ! k = (t, (i, s), e)" by (cases "rows ! k") auto
  with k have "(t, (i, s), e) \<in> set rows" by (metis nth_mem)
  from POA_irr_rows [OF r this]
  have e: "eai e = max 0 (etr t * cos (apparent_zenith (sp t) * pi / 180))" by simp
  have v: "POA_kt rows ! k = (t, POA_kt_value (ghi i) (Fin (eai e)))"
    using k row by (simp add: POA_kt_def)
  show "case rows ! k of (t, (i, s), e) \<Rightarrow>
            eai e = max 0 (etr t * cos (apparent_zenith (sp t) * pi / 180)) \<and>
            fst (POA_kt rows ! k) = t \<and>
            (eai e < 10 \<longrightarrow> snd (POA_kt rows ! k) = NaN) \<and>
            (10 \<le> eai e \<longrightarrow> snd (POA_kt rows ! k) =
               (if ghi i = PInf then NaN else fdiv (ghi i) (Fin (eai e)))) \<and>
            (10 \<le> eai e \<and> ghi i = NInf \<longrightarrow> snd (POA_kt rows ! k) = NInf)"
    using e by (simp add: row v POA_kt_value_floor POA_kt_value_ratio)
next
  fix t m r
  assume h: "map_of (scale_global_h g) t = Some m \<and>
            map_of (etr_h_hor etr zen start end) t = Some r"
  then have "t \<in> fst ` set (scale_global_h g)"
    by (metis map_of_eq_None_iff option.distinct(1))
  with h show "map_of (KT_main etr zen start end g) t = Some (ceiling_filter (fdiv m r))"
    by (simp add: map_of_KT_main map_of_series_div)
  assume "r = Fin 0 \<and> (m = NaN \<or> fle (Fin 0) m)"
  with h show "map_of (KT_main etr zen start end g) t = Some NaN"
    using KT_zero_reference by blast
qed

theorem clearness_index_missing_witness:
  "POA_irr (\<lambda>_. 1361)
     (\<lambda>t. \<lparr>apparent_zenith = (if t = 0 then 120 else 60), zenith = 0, azimuth = 0\<rparr>)
     [(0, \<lparr>ghi = Fin 5, dhi = Fin 1\<rparr>), (minute, \<lparr>ghi = Fin 300, dhi = Fin 100\<rparr>)] =
   Inr [(0, (\<lparr>ghi = Fin 5, dhi = Fin 1\<rparr>,
             \<lparr>apparent_zenith = 120, zenith = 0, azimuth = 0\<rparr>),
            \<lparr>eai = 0, eai_global = 1361\<rparr>),
        (minute, (\<lparr>ghi = Fin 300, dhi = Fin 100\<rparr>,
             \<lparr>apparent_zenith = 60, zenith = 0, azimuth = 0\<rparr>),
            \<lparr>eai = 1361 / 2, eai_global = 1361\<rparr>)] \<and>
   POA_main_kt (\<lambda>_. 1361)
     (\<lambda>t. \<lparr>apparent_zenith = (if t = 0 then 120 else 60), zenith = 0, azimuth = 0\<rparr>)
     [(0, \<lparr>ghi = Fin 5, dhi = Fin 1\<rparr>), (minute, \<lparr>ghi = Fin 300, dhi = Fin 100\<rparr>)] =
   Inr [(0, NaN), (minute, Fin (600 / 1361))] \<and>
   (0 :: real) < 10 \<and> (10 :: real) \<le> 1361 / 2 \<and>
   map_of (scale_global_h [(0, Fin (1 / 10))]) 0 = Some (Fin 100) \<and>
   map_of (etr_h_hor (\<lambda>_. 1361) (\<lambda>_. 120) 0 0) 0 = Some (Fin 0) \<and>
   fle (Fin 0) (Fin 100) \<and>
   map_of (KT_main (\<lambda>_. 1361) (\<lambda>_. 120) 0 0 [(0, Fin (1 / 10))]) 0 = Some NaN"
proof -
  let ?sp = "\<lambda>t::int. \<lparr>apparent_zenith = (if t = 0 then 120 else 60), zenith = 0, azimuth = 0\<rparr>"
  let ?irr = "[(0, \<lparr>ghi = Fin 5, dhi = Fin 1\<rparr>), (minute, \<lparr>ghi = Fin 300, dhi = Fin 100\<rparr>)]"
  let ?rows = "[(0, (\<lparr>ghi = Fin 5, dhi = Fin 1\<rparr>,
             \<lparr>apparent_zenith = 120, zenith = 0, azimuth = 0\<rparr>),
            \<lparr>eai = 0, eai_global = 1361\<rparr>),
        (minute, (\<lparr>ghi = Fin 300, dhi = Fin 100\<rparr>,
             \<lparr>apparent_zenith = 60, zenith = 0, azimuth = 0\<rparr>),
            \<lparr>eai = 1361 / 2, eai_global = 1361\<rparr>)]"
  note T = clearness_index_missing [of ?irr "\<lambda>_. 1361" ?sp "[(0, Fin (1 / 10))]" "\<lambda>_. 120" 0 0]
  have rows: "POA_irr (\<lambda>_. 1361) ?sp ?irr = Inr ?rows" by (rule POA_two_rows)
  with T have "POA_main_kt (\<lambda>_. 1361) ?sp ?irr = Inr (POA_kt ?rows)" by blast
  moreover have "POA_kt ?rows = [(0, NaN), (minute, Fin (600 / 1361))]"
    by (simp add: POA_kt_def POA_kt_value_def feq_def)
  ultimately have kt: "POA_main_kt (\<lambda>_. 1361) ?sp ?irr = Inr [(0, NaN), (minute, Fin (600 / 1361))]"
    by simp
  have g: "map_of (scale_global_h [(0, Fin (1 / 10))]) 0 = Some (Fin 100)"
    by (simp add: scale_global_h_def)
  have r: "map_of (etr_h_hor (\<lambda>_. 1361) (\<lambda>_. 120) 0 0) 0 = Some (Fin 0)"
    by (simp add: night_reference)
  have p: "fle (Fin 0) (Fin 100)" by (simp add: fle_def)
  from T g r p have "map_of (KT_main (\<lambda>_. 1361) (\<lambda>_. 120) 0 0 [(0, Fin (1 / 10))]) 0 = Some NaN"
    by blast
  with rows kt g r p show ?thesis by simp
qed

section \<open>Bins of the resampling\<close>

lemma bin_interval:
  assumes "0 < (w::int)"
  shows "((t - origin) div w = k) = (origin + k * w \<le> t \<and> t < origin + k * w + w)"
proof
  assume d: "(t - origin) div w = k"
  define r where "r = (t - origin) mod w"
  have "t - origin = k * w + r" unfolding r_def d [symmetric] by simp
  moreover have "0 \<le> r" "r < w" using assms by (simp_all add: r_def)
  ultimately show "origin + k * w \<le> t \<and> t < origin + k * w + w" by linarith
next
  assume h: "origin + k * w \<le> t \<and> t < origin + k * w + w"
  have "t - origin = w * k + (t - origin - k * w)" by (simp add: mult.commute)
  moreover have "0 \<le> t - origin - k * w" "t - origin - k * w < w" using h by linarith+
  ultimately show "(t - origin) div w = k" by (rule int_div_pos_eq)
qed

lemma bin_rows_between:
  "0 < w \<Longrightarrow> bin_rows origin w k xs = rows_between (origin + k * w) w xs"
  by (simp add: bin_rows_def rows_between_def bin_interval)

lemma foldl_fadd_Fin: "foldl fadd (Fin a) (map Fin rs) = Fin (a + sum_list rs)"
  by (induction rs arbitrary: a) simp_all

lemma filter_no_inf:
  "PInf \<notin> set vs \<Longrightarrow> NInf \<notin> set vs \<Longrightarrow> filter (\<lambda>v. v \<noteq> NaN) vs = map Fin (fin_vals vs)"
proof (induction vs)
  case Nil
  then show ?case by simp
next
  case (Cons v vs)
  then show ?case by (cases v) simp_all
qed

lemma mean_skipna_finite:
  assumes "PInf \<notin> set vs" and "NInf \<notin> set vs"
  shows "mean_skipna vs =
     (if fin_vals vs = [] then NaN
      else Fin (sum_list (fin_vals vs) / real (length (fin_vals vs))))"
  by (simp add: mean_skipna_def filter_no_inf [OF assms] fsum_def foldl_fadd_Fin)

lemma resample_mean_rows:
  assumes "(T, v) \<in> set (resample_mean w xs)"
  shows "\<exists>k. T = resample_origin xs + k * w \<and> v = mean_skipna (bin_rows (resample_origin xs) w k xs)"
  using assms by (auto simp: resample_mean_def Let_def split: if_splits)

lemma resample_mean_member:
  assumes "xs \<noteq> []"
    and "(Min (set (map fst xs)) - resample_origin xs) div w \<le> k"
    and "k \<le> (Max (set (map fst xs)) - resample_origin xs) div w"
  shows "(resample_origin xs + k * w, mean_skipna (bin_rows (resample_origin xs) w k xs))
           \<in> set (resample_mean w xs)"
  using assms by (auto simp: resample_mean_def Let_def)

lemma resample_mean_labels:
  "map fst (resample_mean w xs) =
     (if xs = [] then []
      else map (\<lambda>k. resample_origin xs + k * w)
             [(Min (set (map fst xs)) - resample_origin xs) div w ..
              (Max (set (map fst xs)) - resample_origin xs) div w])"
  by (simp add: resample_mean_def Let_def comp_def)

lemma resample_mean_covers:
  assumes "0 < w" and "r \<in> set xs"
  shows "\<exists>(T, v) \<in> set (resample_mean w xs). T \<le> fst r \<and> fst r < T + w"
proof -
  let ?o = "resample_origin xs"
  let ?k = "(fst r - ?o) div w"
  from assms(2) have ne: "xs \<noteq> []" by auto
  have "Min (set (map fst xs)) \<le> fst r" "fst r \<le> Max (set (map fst xs))"
    using assms(2) by simp_all
  then have "(Min (set (map fst xs)) - ?o) div w \<le> ?k" "?k \<le> (Max (set (map fst xs)) - ?o) div w"
    using assms(1) by (simp_all add: zdiv_mono1)
  then have "(?o + ?k * w, mean_skipna (bin_rows ?o w ?k xs)) \<in> set (resample_mean w xs)"
    using ne by (intro resample_mean_member)
  moreover have "?o + ?k * w \<le> fst r \<and> fst r < ?o + ?k * w + w"
    using bin_interval [OF assms(1), of "fst r" ?o ?k] by simp
  ultimately show ?thesis by blast
qed

lemma foldl_fadd_cases:
  "foldl fadd a ws =
     (if NaN \<in> set (a # ws) \<or> (PInf \<in> set (a # ws) \<and> NInf \<in> set (a # ws)) then NaN
      else if PInf \<in> set (a # ws) then PInf
      else if NInf \<in> set (a # ws) then NInf
      else Fin (sum_list (fin_vals (a # ws))))"
proof (induction ws arbitrary: a)
  case Nil
  then show ?case by (cases a) simp_all
next
  case (Cons w ws)
  show ?case unfolding foldl_Cons Cons.IH [of "fadd a w"]
    by (cases a; cases w) auto
qed

lemma fin_vals_filter: "fin_vals (filter (\<lambda>v. v \<noteq> NaN) vs) = fin_vals vs"
  by (induction vs rule: fin_vals.induct) simp_all

lemma mean_skipna_arithmetic: "mean_skipna vs = arithmetic_mean vs"
proof -
  let ?ws = "filter (\<lambda>v. v \<noteq> NaN) vs"
  have s: "fsum ?ws =
     (if PInf \<in> set vs \<and> NInf \<in> set vs then NaN
      else if PInf \<in> set vs then PInf
      else if NInf \<in> set vs then NInf
      else Fin (sum_list (fin_vals vs)))"
    unfolding fsum_def foldl_fadd_cases by (simp add: fin_vals_filter)
  show ?thesis
  proof (cases "PInf \<in> set vs \<or> NInf \<in> set vs")
    case True
    then have "?ws \<noteq> []" by (auto simp: filter_empty_conv)
    with True show ?thesis
      by (auto simp: mean_skipna_def arithmetic_mean_def s Let_def)
  next
    case False
    then show ?thesis
      by (simp add: mean_skipna_finite arithmetic_mean_def)
  qed
qed

lemma arithmetic_mean_Fin:
  "arithmetic_mean (map Fin xs) = (if xs = [] then NaN else Fin (sum_list xs / real (length xs)))"
proof -
  have "fin_vals (map Fin xs) = xs" by (induction xs) simp_all
  then show ?thesis by (auto simp: arithmetic_mean_def)
qed

lemma resample_mean_empty: "resample_mean w [] = []"
  by (simp add: resample_mean_def)

lemma origin_multiple: "w dvd day \<Longrightarrow> w dvd resample_origin xs"
  by (simp add: resample_origin_def)

lemma resample_mean_ends:
  assumes "0 < w" and "xs \<noteq> []"
  shows "resample_mean w xs \<noteq> []"
    and "\<exists>r \<in> set xs. fst (hd (resample_mean w xs)) \<le> fst r \<and>
                       fst r < fst (hd (resample_mean w xs)) + w"
    and "\<exists>r \<in> set xs. fst (last (resample_mean w xs)) \<le> fst r \<and>
                       fst r < fst (last (resample_mean w xs)) + w"
proof -
  define origin where "origin = resample_origin xs"
  define tmin where "tmin = Min (set (map fst xs))"
  define tmax where "tmax = Max (set (map fst xs))"
  define lo where "lo = (tmin - origin) div w"
  define hi where "hi = (tmax - origin) div w"
  have labels: "map fst (resample_mean w xs) = map (\<lambda>k. origin + k * w) [lo..hi]"
    using assms(2) by (simp add: resample_mean_labels origin_def tmin_def tmax_def lo_def hi_def)
  have "tmin \<le> tmax" using assms(2) by (simp add: tmin_def tmax_def)
  then have lohi: "lo \<le> hi" using assms(1) by (simp add: lo_def hi_def zdiv_mono1)
  then have ne: "[lo..hi] \<noteq> []" by simp
  then have "map fst (resample_mean w xs) \<noteq> []" unfolding labels by simp
  then show out: "resample_mean w xs \<noteq> []" by auto
  have "hd (map fst (resample_mean w xs)) = origin + lo * w"
    unfolding labels using upto_first_last [OF lohi] by (simp add: hd_map)
  then have h: "fst (hd (resample_mean w xs)) = origin + lo * w"
    using out by (simp add: hd_map)
  have "last (map fst (resample_mean w xs)) = origin + hi * w"
    unfolding labels using upto_first_last [OF lohi] by (simp add: last_map)
  then have l: "fst (last (resample_mean w xs)) = origin + hi * w"
    using out by (simp add: last_map)
  have "tmin \<in> set (map fst xs)" unfolding tmin_def using assms(2) by (intro Min_in) simp_all
  then obtain r1 where r1: "r1 \<in> set xs" "fst r1 = tmin" by auto
  have "tmax \<in> set (map fst xs)" unfolding tmax_def using assms(2) by (intro Max_in) simp_all
  then obtain r2 where r2: "r2 \<in> set xs" "fst r2 = tmax" by auto
  have "origin + lo * w \<le> tmin \<and> tmin < origin + lo * w + w"
    using bin_interval [OF assms(1), of tmin origin lo] by (simp add: lo_def)
  with r1 h show "\<exists>r \<in> set xs. fst (hd (resample_mean w xs)) \<le> fst r \<and>
                       fst r < fst (hd (resample_mean w xs)) + w"
    by auto
  have "origin + hi * w \<le> tmax \<and> tmax < origin + hi * w + w"
    using bin_interval [OF assms(1), of tmax origin hi] by (simp add: hi_def)
  with r2 l show "\<exists>r \<in> set xs. fst (last (resample_mean w xs)) \<le> fst r \<and>
                       fst r < fst (last (resample_mean w xs)) + w"
    by auto
qed

lemma resample_mean_step:
  assumes "Suc i < length (resample_mean w xs)"
  shows "fst (resample_mean w xs ! Suc i) = fst (resample_mean w xs ! i) + w"
proof -
  define origin where "origin = resample_origin xs"
  define lo where "lo = (Min (set (map fst xs)) - origin) div w"
  define hi where "hi = (Max (set (map fst xs)) - origin) div w"
  from assms have ne: "xs \<noteq> []" by (auto simp: resample_mean_def)
  have labels: "map fst (resample_mean w xs) = map (\<lambda>k. origin + k * w) [lo..hi]"
    using ne by (simp add: resample_mean_labels origin_def lo_def hi_def)
  have len: "length (resample_mean w xs) = length [lo..hi]"
    using arg_cong [OF labels, of length] by simp
  with assms have i: "Suc i < length [lo..hi]" by simp
  then have "lo + int (Suc i) \<le> hi" "lo + int i \<le> hi" by simp_all
  then have n: "[lo..hi] ! Suc i = lo + int (Suc i)" "[lo..hi] ! i = lo + int i"
    by (simp_all only: nth_upto)
  have "fst (resample_mean w xs ! Suc i) = map fst (resample_mean w xs) ! Suc i"
    using assms by simp
  also have "\<dots> = origin + (lo + int (Suc i)) * w" unfolding labels using i n by simp
  finally have a: "fst (resample_mean w xs ! Suc i) = origin + (lo + int (Suc i)) * w" .
  have "fst (resample_mean w xs ! i) = map fst (resample_mean w xs) ! i"
    using assms by simp
  also have "\<dots> = origin + (lo + int i) * w" unfolding labels using i n by simp
  finally have b: "fst (resample_mean w xs ! i) = origin + (lo + int i) * w" .
  show ?thesis unfolding a b by (simp add: algebra_simps)
qed

lemma resample_mean_row:
  assumes "0 < w" and "w dvd day" and "(T, v) \<in> set (resample_mean w xs)"
  shows "T mod w = 0 \<and> v = arithmetic_mean (rows_between T w xs)"
proof -
  from resample_mean_rows [OF assms(3)] obtain k where
    k: "T = resample_origin xs + k * w" "v = mean_skipna (bin_rows (resample_origin xs) w k xs)"
    by blast
  have "w dvd T" unfolding k(1) using origin_multiple [OF assms(2)] by simp
  then have "T mod w = 0" by simp
  moreover have "v = arithmetic_mean (rows_between T w xs)"
    using k assms(1) by (simp add: bin_rows_between mean_skipna_arithmetic)
  ultimately show ?thesis by simp
qed

lemma resample_mean_aggregate:
  assumes "0 < w" and "w dvd day"
  shows "mean_aggregate w xs (resample_mean w xs)"
  unfolding mean_aggregate_def
proof (intro conjI impI allI ballI)
  assume "xs = []"
  then show "resample_mean w xs = []" by (simp add: resample_mean_empty)
next
  assume ne: "xs \<noteq> []"
  show "resample_mean w xs \<noteq> []" using assms(1) ne by (rule resample_mean_ends(1))
  show "\<exists>r \<in> set xs. fst (hd (resample_mean w xs)) \<le> fst r \<and>
                       fst r < fst (hd (resample_mean w xs)) + w"
    using assms(1) ne by (rule resample_mean_ends(2))
  show "\<exists>r \<in> set xs. fst (last (resample_mean w xs)) \<le> fst r \<and>
                       fst r < fst (last (resample_mean w xs)) + w"
    using assms(1) ne by (rule resample_mean_ends(3))
next
  fix i assume "Suc i < length (resample_mean w xs)"
  then show "fst (resample_mean w xs ! Suc i) = fst (resample_mean w xs ! i) + w"
    by (rule resample_mean_step)
next
  fix p assume p: "p \<in> set (resample_mean w xs)"
  obtain T v where pv: "p = (T, v)" by (cases p)
  with p have "(T, v) \<in> set (resample_mean w xs)" by simp
  from resample_mean_row [OF assms this]
  show "case p of (T, v) \<Rightarrow> T mod w = 0 \<and> v = arithmetic_mean (rows_between T w xs)"
    by (simp add: pv)
next
  fix r assume "r \<in> set xs"
  with assms(1) show "\<exists>(T, v) \<in> set (resample_mean w xs). T \<le> fst r \<and> fst r < T + w"
    by (rule resample_mean_covers)
qed

lemma hour_dvd_day: "hour dvd day"
proof -
  have "day = hour * 24" by (simp add: hour_def day_def)
  then show ?thesis by (metis dvd_triv_left)
qed

lemma rows_between_to_series:
  "rows_between T w (to_series fine) =
     map Fin (map snd (filter (\<lambda>r. T \<le> fst r \<and> fst r < T + w) fine))"
  by (induction fine) (auto simp: rows_between_def to_series_def)

lemma two_minutes_hor:
  "etr_hor (\<lambda>_. 1361) (\<lambda>t. if t = 0 then 120 else 60) (date_range 0 minute minute) =
     [(0, 0), (minute, 1361 / 2)]"
proof -
  have m: "minute \<noteq> 0" by (simp add: minute_def)
  show ?thesis by (simp add: date_range_two etr_hor_def cos_radians_120 cos_radians_60 m)
qed

lemma two_minutes_hourly:
  "etr_h_hor (\<lambda>_. 1361) (\<lambda>t. if t = 0 then 120 else 60) 0 minute = [(0, Fin (1361 / 4))]"
  unfolding etr_h_hor_def two_minutes_hor
  by (simp add: to_series_def resample_mean_def resample_origin_def Let_def minute_def
      hour_def day_def upto.simps bin_rows_def mean_skipna_def fsum_def)

lemma POA_two_rows_kt:
  "POA_main_kt (\<lambda>_. 1361)
     (\<lambda>t. \<lparr>apparent_zenith = (if t = 0 then 120 else 60), zenith = 0, azimuth = 0\<rparr>)
     [(0, \<lparr>ghi = Fin 5, dhi = Fin 1\<rparr>), (minute, \<lparr>ghi = Fin 300, dhi = Fin 100\<rparr>)] =
   Inr [(0, NaN), (minute, Fin (600 / 1361))]"
  by (simp add: POA_main_kt_def POA_two_rows POA_kt_def POA_kt_value_def feq_def)

lemma POA_two_rows_kt_d:
  "POA_main_kt_d (\<lambda>_. 1361)
     (\<lambda>t. \<lparr>apparent_zenith = (if t = 0 then 120 else 60), zenith = 0, azimuth = 0\<rparr>)
     [(0, \<lparr>ghi = Fin 5, dhi = Fin 1\<rparr>), (minute, \<lparr>ghi = Fin 300, dhi = Fin 100\<rparr>)] =
   Inr [(0, Fin (600 / 1361))]"
  unfolding POA_main_kt_d_def POA_two_rows_kt
  by (simp add: resample_mean_def resample_origin_def Let_def minute_def
      day_def upto.simps bin_rows_def mean_skipna_def fsum_def)

text \<open>
  Claim C8. The two aggregations of the scripts produce what the specification asks of an
  aggregation by the mean with bin-left labels. The hourly reference of Calculate\_KT.py
  aggregates the minutely horizontal series to bins of one hour, and the daily \<open>kt\<close> of
  POA\_analysis.py aggregates \<open>kt\<close> to bins of one day: the output rows are labelled with
  the left edges of consecutive bins, whole hours or whole days, from the bin of the
  earliest to the bin of the latest fine-grained row; the value of the row labelled \<open>T\<close>
  is the arithmetic mean of the fine-grained values with \<open>T \<le> t < T + w\<close>, missing values
  not counted; and every fine-grained row falls into the bin of some output row. For the
  hourly reference, whose fine-grained values are all finite, the value is the sum of the
  values of the bin divided by their number.
\<close>

theorem aggregation_bins:
  "mean_aggregate hour (to_series (etr_hor etr zen (date_range start end minute)))
      (etr_h_hor etr zen start end) \<and>
   (\<forall>(T, v) \<in> set (etr_h_hor etr zen start end).
      v = (if filter (\<lambda>r. T \<le> fst r \<and> fst r < T + hour)
                (etr_hor etr zen (date_range start end minute)) = [] then NaN
           else Fin (sum_list (map snd (filter (\<lambda>r. T \<le> fst r \<and> fst r < T + hour)
                                   (etr_hor etr zen (date_range start end minute)))) /
                     real (length (filter (\<lambda>r. T \<le> fst r \<and> fst r < T + hour)
                                   (etr_hor etr zen (date_range start end minute))))))) \<and>
   (\<forall>e. POA_main_kt etr sp irr = Inl e \<longrightarrow> POA_main_kt_d etr sp irr = Inl e) \<and>
   (\<forall>kt. POA_main_kt etr sp irr = Inr kt \<longrightarrow>
      (\<exists>kt_d. POA_main_kt_d etr sp irr = Inr kt_d \<and> mean_aggregate day kt kt_d))"
proof (intro conjI allI impI ballI)
  have h: "0 < hour" by (simp add: hour_def)
  show a: "mean_aggregate hour (to_series (etr_hor etr zen (date_range start end minute)))
      (etr_h_hor etr zen start end)"
    unfolding etr_h_hor_def using h hour_dvd_day by (rule resample_mean_aggregate)
  fix p assume p: "p \<in> set (etr_h_hor etr zen start end)"
  obtain T v where pv: "p = (T, v)" by (cases p)
  from a p pv have v: "v = arithmetic_mean (rows_between T hour
      (to_series (etr_hor etr zen (date_range start end minute))))"
    unfolding mean_aggregate_def by blast
  have "v = (if map snd (filter (\<lambda>r. T \<le> fst r \<and> fst r < T + hour)
                (etr_hor etr zen (date_range start end minute))) = [] then NaN
           else Fin (sum_list (map snd (filter (\<lambda>r. T \<le> fst r \<and> fst r < T + hour)
                                   (etr_hor etr zen (date_range start end minute)))) /
                     real (length (map snd (filter (\<lambda>r. T \<le> fst r \<and> fst r < T + hour)
                                   (etr_hor etr zen (date_range start end minute)))))))"
    unfolding v rows_between_to_series arithmetic_mean_Fin ..
  then show "case p of (T, v) \<Rightarrow>
      v = (if filter (\<lambda>r. T \<le> fst r \<and> fst r < T + hour)
                (etr_hor etr zen (date_range start end minute)) = [] then NaN
           else Fin (sum_list (map snd (filter (\<lambda>r. T \<le> fst r \<and> fst r < T + hour)
                                   (etr_hor etr zen (date_range start end minute)))) /
                     real (length (filter (\<lambda>r. T \<le> fst r \<and> fst r < T + hour)
                                   (etr_hor etr zen (date_range start end minute))))))"
    by (simp add: pv)
next
  fix e assume "POA_main_kt etr sp irr = Inl e"
  then show "POA_main_kt_d etr sp irr = Inl e" by (simp add: POA_main_kt_d_def)
next
  fix kt assume kt: "POA_main_kt etr sp irr = Inr kt"
  have d: "0 < day" by (simp add: day_def)
  have "mean_aggregate day kt (resample_mean day kt)"
    using d by (rule resample_mean_aggregate) simp
  with kt show "\<exists>kt_d. POA_main_kt_d etr sp irr = Inr kt_d \<and> mean_aggregate day kt kt_d"
    by (simp add: POA_main_kt_d_def)
qed

theorem aggregation_bins_witness:
  "etr_h_hor (\<lambda>_. 1361) (\<lambda>t. if t = 0 then 120 else 60) 0 minute = [(0, Fin (1361 / 4))] \<and>
   filter (\<lambda>r. 0 \<le> fst r \<and> fst r < 0 + hour)
     (etr_hor (\<lambda>_. 1361) (\<lambda>t. if t = 0 then 120 else 60) (date_range 0 minute minute)) =
     [(0, 0), (minute, 1361 / 2)] \<and>
   Fin (1361 / 4) = Fin (sum_list (map snd [(0 :: int, 0 :: real), (minute, 1361 / 2)]) /
                        real (length [(0 :: int, 0 :: real), (minute, 1361 / 2)])) \<and>
   (0 :: int) mod hour = 0 \<and>
   POA_main_kt (\<lambda>_. 1361)
     (\<lambda>t. \<lparr>apparent_zenith = (if t = 0 then 120 else 60), zenith = 0, azimuth = 0\<rparr>)
     [(0, \<lparr>ghi = Fin 5, dhi = Fin 1\<rparr>), (minute, \<lparr>ghi = Fin 300, dhi = Fin 100\<rparr>)] =
   Inr [(0, NaN), (minute, Fin (600 / 1361))] \<and>
   POA_main_kt_d (\<lambda>_. 1361)
     (\<lambda>t. \<lparr>apparent_zenith = (if t = 0 then 120 else 60), zenith = 0, azimuth = 0\<rparr>)
     [(0, \<lparr>ghi = Fin 5, dhi = Fin 1\<rparr>), (minute, \<lparr>ghi = Fin 300, dhi = Fin 100\<rparr>)] =
   Inr [(0, Fin (600 / 1361))] \<and>
   rows_between 0 day [(0, NaN), (minute, Fin (600 / 1361))] = [NaN, Fin (600 / 1361)] \<and>
   Fin (600 / 1361) = arithmetic_mean [NaN, Fin (600 / 1361)]"
proof -
  let ?zen = "\<lambda>t::int. if t = 0 then 120 else (60 :: real)"
  let ?sp = "\<lambda>t::int. \<lparr>apparent_zenith = (if t = 0 then 120 else 60), zenith = 0, azimuth = 0\<rparr>"
  let ?irr = "[(0, \<lparr>ghi = Fin 5, dhi = Fin 1\<rparr>), (minute, \<lparr>ghi = Fin 300, dhi = Fin 100\<rparr>)]"
  let ?kt = "[(0, NaN), (minute, Fin (600 / 1361))]"
  note T = aggregation_bins [of "\<lambda>_. 1361" ?zen 0 minute ?sp ?irr]
  have out: "etr_h_hor (\<lambda>_. 1361) ?zen 0 minute = [(0, Fin (1361 / 4))]"
    by (rule two_minutes_hourly)
  have sel: "filter (\<lambda>r. 0 \<le> fst r \<and> fst r < 0 + hour)
       (etr_hor (\<lambda>_. 1361) ?zen (date_range 0 minute minute)) = [(0, 0), (minute, 1361 / 2)]"
    unfolding two_minutes_hor by (simp add: minute_def hour_def)
  have "(0, Fin (1361 / 4)) \<in> set (etr_h_hor (\<lambda>_. 1361) ?zen 0 minute)" by (simp add: out)
  from bspec [OF conjunct1 [OF conjunct2 [OF T]] this]
  have val: "Fin (1361 / 4) = Fin (sum_list (map snd [(0 :: int, 0 :: real), (minute, 1361 / 2)]) /
                        real (length [(0 :: int, 0 :: real), (minute, 1361 / 2)]))"
    unfolding prod.case sel by simp
  have "mean_aggregate hour
      (to_series (etr_hor (\<lambda>_. 1361) ?zen (date_range 0 minute minute)))
      [(0, Fin (1361 / 4))]"
    using conjunct1 [OF T] by (simp only: out)
  then have grid: "(0 :: int) mod hour = 0" unfolding mean_aggregate_def by simp
  have kt: "POA_main_kt (\<lambda>_. 1361) ?sp ?irr = Inr ?kt" by (rule POA_two_rows_kt)
  have ktd: "POA_main_kt_d (\<lambda>_. 1361) ?sp ?irr = Inr [(0, Fin (600 / 1361))]"
    by (rule POA_two_rows_kt_d)
  from T kt obtain kt_d where
    "POA_main_kt_d (\<lambda>_. 1361) ?sp ?irr = Inr kt_d" and agg: "mean_aggregate day ?kt kt_d"
    by blast
  with ktd have "kt_d = [(0, Fin (600 / 1361))]" by simp
  with agg have "Fin (600 / 1361) = arithmetic_mean (rows_between 0 day ?kt)"
    unfolding mean_aggregate_def by simp
  moreover have rb: "rows_between 0 day ?kt = [NaN, Fin (600 / 1361)]"
    by (simp add: rows_between_def minute_def day_def)
  ultimately have pv: "Fin (600 / 1361) = arithmetic_mean [NaN, Fin (600 / 1361)]" by simp
  from out sel val grid kt ktd rb pv show ?thesis by blast
qed

section \<open>Resampling in two stages\<close>





















end
